theory Spec2Isabelle
  imports Complex_Main
begin

section \<open>Python values the module handles\<close>

text \<open>
  The exceptions that the modelled code (and the numpy calls it makes) can raise.
  A raising call returns \<open>Inl e\<close>; a call that returns normally returns \<open>Inr v\<close>.
\<close>

datatype py_error =
  AttributeError | IndexError | TypeError | ValueError | AxisError | NotImplementedError

definition bind_result :: "py_error + 'a \<Rightarrow> ('a \<Rightarrow> py_error + 'b) \<Rightarrow> py_error + 'b" where
  "bind_result m f = (case m of Inl e \<Rightarrow> Inl e | Inr v \<Rightarrow> f v)"

text \<open>
  A numpy array: its shape tuple and its entries in row-major order. A numpy scalar
  (what a full reduction returns) is the array of shape \<open>()\<close>, here \<open>[]\<close>.
\<close>

record 'a ndarray =
  shape :: "nat list"
  data :: "'a list"

definition wf_ndarray :: "'a ndarray \<Rightarrow> bool" where
  "wf_ndarray a = (length (data a) = prod_list (shape a))"

definition np_scalar :: "'a \<Rightarrow> 'a ndarray" where
  "np_scalar v = \<lparr>shape = [], data = [v]\<rparr>"

text \<open>
  What a caller can hand to the constructor: an array, a plain Python list of numbers,
  or a plain Python number. Only the first has a \<open>.shape\<close> attribute.
\<close>

datatype 'a raw_input = Ndarray "'a ndarray" | PyList "'a list" | PyScalar 'a

fun np_array :: "'a raw_input \<Rightarrow> 'a ndarray" where
  "np_array (Ndarray a) = a"
| "np_array (PyList xs) = \<lparr>shape = [length xs], data = xs\<rparr>"
| "np_array (PyScalar v) = np_scalar v"

fun raw_shape :: "'a raw_input \<Rightarrow> py_error + nat list" where
  "raw_shape (Ndarray a) = Inr (shape a)"
| "raw_shape (PyList xs) = Inl AttributeError"
| "raw_shape (PyScalar v) = Inl AttributeError"

text \<open>Axis labels: \<open>np.arange\<close> gives integers, a caller may give strings.\<close>

datatype label = IntLabel int | StrLabel string

definition np_arange :: "nat \<Rightarrow> int list" where
  "np_arange n = map int [0..<n]"

definition arange_labels :: "nat \<Rightarrow> label list" where
  "arange_labels n = map IntLabel (np_arange n)"

text \<open>Indexing a tuple: \<open>t[i]\<close> for a non-negative literal \<open>i\<close>.\<close>

definition tuple_get :: "'a list \<Rightarrow> nat \<Rightarrow> py_error + 'a" where
  "tuple_get t i = (if i < length t then Inr (t ! i) else Inl IndexError)"

section \<open>The plotting collaborator\<close>

text \<open>
  A highlight rectangle is a unit square with a fixed style, anchored at \<open>xy\<close>.
  \<open>attached\<close> tells whether the rectangle has been added to some axes: matplotlib's
  \<open>rect.remove()\<close> raises \<open>NotImplementedError\<close> for an artist that never was.
\<close>

record rect =
  xy :: "real \<times> real"
  attached :: bool

text \<open>
  The axes object of a figure, as far as the module writes to it: the grid that
  \<open>matshow\<close> drew (rows, columns), tick locations and labels of both axes, the cell
  texts \<open>(x, y, value)\<close> and the anchors of the patches it holds.
\<close>

record 'a axes =
  image_shape :: "nat \<times> nat"
  xtick_locs :: "int list"
  xticklabels :: "label list"
  ytick_locs :: "int list"
  yticklabels :: "label list"
  texts :: "(int \<times> int \<times> 'a) list"
  patches :: "(real \<times> real) list"

definition subplots :: "'a axes" where
  "subplots = \<lparr>image_shape = (0, 0), xtick_locs = [], xticklabels = [],
     ytick_locs = [], yticklabels = [], texts = [], patches = []\<rparr>"

section \<open>InteractiveArray\<close>

record 'a interactive_array =
  arr :: "'a ndarray"
  stats :: bool
  highlight_rects :: "rect list"
  ax :: "'a axes option"
  self_shape :: "nat list"
  xticks :: "label list"
  yticks :: "label list option"

text \<open>
  \<open>__init__(self, arr, stats=False, xticks=None, yticks=None)\<close>. The buffer is
  \<open>np.array(arr)\<close>, but \<open>.shape\<close> is read from the argument itself. The attribute
  \<open>yticks\<close> is only set for rank above one (\<open>None\<close> models its absence).
\<close>

definition InteractiveArray ::
  "'a raw_input \<Rightarrow> bool \<Rightarrow> label list option \<Rightarrow> label list option
    \<Rightarrow> py_error + 'a interactive_array" where
  "InteractiveArray arr0 stats0 xticks0 yticks0 =
     bind_result (raw_shape arr0) (\<lambda>shp.
     bind_result (case xticks0 of
                    Some xt \<Rightarrow> Inr xt
                  | None \<Rightarrow> bind_result (tuple_get shp 0) (\<lambda>d. Inr (arange_labels d))) (\<lambda>xt.
     bind_result (if length shp > 1
                  then (case yticks0 of
                          Some yt \<Rightarrow> Inr (Some yt)
                        | None \<Rightarrow> bind_result (tuple_get shp 1) (\<lambda>d. Inr (Some (arange_labels d))))
                  else Inr None) (\<lambda>yt.
     Inr \<lparr>arr = np_array arr0, stats = stats0, highlight_rects = [], ax = None,
          self_shape = shp, xticks = xt, yticks = yt\<rparr>)))"

text \<open>The call \<open>InteractiveArray(a)\<close> with every keyword at its default.\<close>

definition wrap :: "'a ndarray \<Rightarrow> py_error + 'a interactive_array" where
  "wrap a = InteractiveArray (Ndarray a) False None None"

subsection \<open>\<open>sum\<close>\<close>

text \<open>
  \<open>np.sum(a, axis)\<close>: with \<open>axis=None\<close> the sum of all entries, a scalar of shape
  \<open>()\<close>; with an axis \<open>k\<close> (negative counts from the end) the array with that axis
  summed out; an axis outside \<open>-rank \<le> k < rank\<close> raises.
\<close>

definition np_sum :: "'a::comm_monoid_add ndarray \<Rightarrow> int option \<Rightarrow> py_error + 'a ndarray" where
  "np_sum a axis =
     (case axis of
        None \<Rightarrow> Inr (np_scalar (sum_list (data a)))
      | Some k \<Rightarrow>
          (let r = int (length (shape a)) in
           if - r \<le> k \<and> k < r then
             (let k' = nat (if k < 0 then k + r else k);
                  outer = prod_list (take k' (shape a));
                  d = shape a ! k';
                  inner = prod_list (drop (Suc k') (shape a))
              in Inr \<lparr>shape = take k' (shape a) @ drop (Suc k') (shape a),
                      data = concat (map (\<lambda>out. map (\<lambda>i.
                               sum_list (map (\<lambda>j. data a ! ((out * d + j) * inner + i)) [0..<d]))
                               [0..<inner]) [0..<outer])\<rparr>)
           else Inl AxisError))"

definition ia_sum :: "'a::comm_monoid_add interactive_array \<Rightarrow> int option
    \<Rightarrow> py_error + 'a interactive_array" where
  "ia_sum self axis = bind_result (np_sum (arr self) axis) wrap"

subsection \<open>Elementwise operators\<close>

text \<open>
  numpy broadcasting: the shapes are aligned at their last axis; two lengths are
  compatible when they are equal or one of them is 1; incompatible shapes raise
  \<open>ValueError\<close>. Entry \<open>i\<close> of the result reads each operand at the index that
  \<open>i\<close> has in the result, with the index of a stretched axis set to 0.
\<close>

fun broadcast_rev :: "nat list \<Rightarrow> nat list \<Rightarrow> nat list option" where
  "broadcast_rev [] ys = Some ys"
| "broadcast_rev (x # xs) [] = Some (x # xs)"
| "broadcast_rev (x # xs) (y # ys) =
     (if x = y \<or> y = 1 then map_option ((#) x) (broadcast_rev xs ys)
      else if x = 1 then map_option ((#) y) (broadcast_rev xs ys)
      else None)"

definition broadcast_shapes :: "nat list \<Rightarrow> nat list \<Rightarrow> nat list option" where
  "broadcast_shapes s t = map_option rev (broadcast_rev (rev s) (rev t))"

fun ravel :: "nat list \<Rightarrow> nat list \<Rightarrow> nat" where
  "ravel (d # ds) (k # ks) = k * prod_list ds + ravel ds ks"
| "ravel ds ks = 0"

fun unravel :: "nat list \<Rightarrow> nat \<Rightarrow> nat list" where
  "unravel [] i = []"
| "unravel (d # ds) i = (i div prod_list ds) # unravel ds (i mod prod_list ds)"

definition stretch :: "nat \<Rightarrow> nat \<Rightarrow> nat" where
  "stretch d k = (if d = 1 then 0 else k)"

definition broadcast_get :: "'a ndarray \<Rightarrow> nat list \<Rightarrow> nat \<Rightarrow> 'a" where
  "broadcast_get a rs i =
     data a ! ravel (shape a)
       (map2 stretch (shape a) (drop (length rs - length (shape a)) (unravel rs i)))"

definition np_binop :: "('a \<Rightarrow> 'b \<Rightarrow> 'c) \<Rightarrow> 'a ndarray \<Rightarrow> 'b ndarray \<Rightarrow> py_error + 'c ndarray" where
  "np_binop f a b =
     (case broadcast_shapes (shape a) (shape b) of
        None \<Rightarrow> Inl ValueError
      | Some rs \<Rightarrow>
          Inr \<lparr>shape = rs,
               data = map (\<lambda>i. f (broadcast_get a rs i) (broadcast_get b rs i))
                        [0..<prod_list rs]\<rparr>)"

text \<open>
  The right operand of an operator: another wrapper, a raw array, or a raw scalar
  (which numpy treats as an array of shape \<open>()\<close>).
\<close>

datatype 'a operand = Wrapped "'a interactive_array" | RawArray "'a ndarray" | RawScalar 'a

fun raw_operand :: "'a operand \<Rightarrow> 'a ndarray" where
  "raw_operand (RawArray a) = a"
| "raw_operand (RawScalar v) = np_scalar v"
| "raw_operand (Wrapped w) = arr w"

text \<open>
  Each operator method tests \<open>isinstance(other, InteractiveArray)\<close>, combines
  \<open>self.arr\<close> with \<open>other.arr\<close> or with \<open>other\<close> itself, and wraps the result with
  \<open>InteractiveArray(...)\<close>. Addition, subtraction, multiplication and the comparisons are
  those of the entry type; numpy's scalar true division \<open>dv\<close> and power \<open>pw\<close> are
  parameters (division by zero and integer powers follow numpy's rules, not HOL's).
  \<open>ia_add\<close> is \<open>__add__\<close>, \<open>ia_sub\<close> is \<open>__sub__\<close>, and so on to \<open>ia_eq\<close>, which is
  \<open>__eq__\<close>; \<open>ia_sum\<close> above is the method \<open>sum\<close>.
\<close>

fun ia_add :: "'a::plus interactive_array \<Rightarrow> 'a operand \<Rightarrow> py_error + 'a interactive_array" where
  "ia_add self (Wrapped other) = bind_result (np_binop (+) (arr self) (arr other)) wrap"
| "ia_add self other = bind_result (np_binop (+) (arr self) (raw_operand other)) wrap"

fun ia_sub :: "'a::minus interactive_array \<Rightarrow> 'a operand \<Rightarrow> py_error + 'a interactive_array" where
  "ia_sub self (Wrapped other) = bind_result (np_binop (-) (arr self) (arr other)) wrap"
| "ia_sub self other = bind_result (np_binop (-) (arr self) (raw_operand other)) wrap"

fun ia_mul :: "'a::times interactive_array \<Rightarrow> 'a operand \<Rightarrow> py_error + 'a interactive_array" where
  "ia_mul self (Wrapped other) = bind_result (np_binop (*) (arr self) (arr other)) wrap"
| "ia_mul self other = bind_result (np_binop (*) (arr self) (raw_operand other)) wrap"

fun ia_truediv :: "('a \<Rightarrow> 'a \<Rightarrow> 'b) \<Rightarrow> 'a interactive_array \<Rightarrow> 'a operand
    \<Rightarrow> py_error + 'b interactive_array" where
  "ia_truediv dv self (Wrapped other) = bind_result (np_binop dv (arr self) (arr other)) wrap"
| "ia_truediv dv self other = bind_result (np_binop dv (arr self) (raw_operand other)) wrap"

fun ia_pow :: "('a \<Rightarrow> 'a \<Rightarrow> 'b) \<Rightarrow> 'a interactive_array \<Rightarrow> 'a operand
    \<Rightarrow> py_error + 'b interactive_array" where
  "ia_pow pw self (Wrapped other) = bind_result (np_binop pw (arr self) (arr other)) wrap"
| "ia_pow pw self other = bind_result (np_binop pw (arr self) (raw_operand other)) wrap"

fun ia_gt :: "'a::ord interactive_array \<Rightarrow> 'a operand \<Rightarrow> py_error + bool interactive_array" where
  "ia_gt self (Wrapped other) = bind_result (np_binop (>) (arr self) (arr other)) wrap"
| "ia_gt self other = bind_result (np_binop (>) (arr self) (raw_operand other)) wrap"

fun ia_lt :: "'a::ord interactive_array \<Rightarrow> 'a operand \<Rightarrow> py_error + bool interactive_array" where
  "ia_lt self (Wrapped other) = bind_result (np_binop (<) (arr self) (arr other)) wrap"
| "ia_lt self other = bind_result (np_binop (<) (arr self) (raw_operand other)) wrap"

fun ia_ge :: "'a::ord interactive_array \<Rightarrow> 'a operand \<Rightarrow> py_error + bool interactive_array" where
  "ia_ge self (Wrapped other) = bind_result (np_binop (\<ge>) (arr self) (arr other)) wrap"
| "ia_ge self other = bind_result (np_binop (\<ge>) (arr self) (raw_operand other)) wrap"

fun ia_le :: "'a::ord interactive_array \<Rightarrow> 'a operand \<Rightarrow> py_error + bool interactive_array" where
  "ia_le self (Wrapped other) = bind_result (np_binop (\<le>) (arr self) (arr other)) wrap"
| "ia_le self other = bind_result (np_binop (\<le>) (arr self) (raw_operand other)) wrap"

fun ia_eq :: "'a interactive_array \<Rightarrow> 'a operand \<Rightarrow> py_error + bool interactive_array" where
  "ia_eq self (Wrapped other) = bind_result (np_binop (=) (arr self) (arr other)) wrap"
| "ia_eq self other = bind_result (np_binop (=) (arr self) (raw_operand other)) wrap"

text \<open>
  The class defines no \<open>__ne__\<close>. Python then evaluates \<open>a != b\<close> as
  \<open>not a.__eq__(b)\<close>, and \<open>not\<close> takes the truth value of the object \<open>__eq__\<close> returned.
  The class defines neither \<open>__bool__\<close> nor \<open>__len__\<close>, so every instance is true.
\<close>

definition truth_value :: "'a interactive_array \<Rightarrow> bool" where
  "truth_value w = True"

definition ia_ne :: "'a interactive_array \<Rightarrow> 'a operand \<Rightarrow> py_error + bool" where
  "ia_ne self other = bind_result (ia_eq self other) (\<lambda>r. Inr (\<not> truth_value r))"

subsection \<open>Statistics of the highlighted cells\<close>

text \<open>
  numpy's reductions of a non-empty list of numbers. The entries are real numbers:
  rounding, infinities and NaN are outside this model.
\<close>

definition np_min :: "real list \<Rightarrow> real" where
  "np_min xs = Min (set xs)"

definition np_max :: "real list \<Rightarrow> real" where
  "np_max xs = Max (set xs)"

definition np_median :: "real list \<Rightarrow> real" where
  "np_median xs =
     (let s = sort xs; n = length xs
      in if even n then (s ! (n div 2 - 1) + s ! (n div 2)) / 2 else s ! (n div 2))"

definition np_mean :: "real list \<Rightarrow> real" where
  "np_mean xs = sum_list xs / real (length xs)"

definition np_std :: "real list \<Rightarrow> real" where
  "np_std xs = sqrt (np_mean (map (\<lambda>x. \<bar>x - np_mean xs\<bar> ^ 2) xs))"

record stats_record =
  min_val :: real
  max_val :: real
  median_val :: real
  mean_val :: real
  std_val :: real
  sum_val :: real

text \<open>The caption \<open>plt.title\<close> is given: the empty string or the statistics line.\<close>

datatype caption = Empty_title | Stats_title stats_record

text \<open>Python's \<open>int(x)\<close> of a float truncates towards zero.\<close>

definition py_int :: "real \<Rightarrow> int" where
  "py_int x = (if 0 \<le> x then \<lfloor>x\<rfloor> else \<lceil>x\<rceil>)"

text \<open>
  numpy integer indexing along an axis of length \<open>d\<close>: indices \<open>-d \<le> i < d\<close> are
  accepted, a negative one counting from the end; any other raises \<open>IndexError\<close>.
  \<open>getitem1\<close> is \<open>a[i]\<close> and \<open>getitem2\<close> is \<open>a[i, j]\<close>; both return the entries of the
  item (one entry when the item is a scalar).
\<close>

definition norm_index :: "nat \<Rightarrow> int \<Rightarrow> py_error + nat" where
  "norm_index d i =
     (if - int d \<le> i \<and> i < int d then Inr (nat (if i < 0 then i + int d else i))
      else Inl IndexError)"

definition getitem1 :: "'a ndarray \<Rightarrow> int \<Rightarrow> py_error + 'a list" where
  "getitem1 a i =
     (case shape a of
        [] \<Rightarrow> Inl IndexError
      | d # ds \<Rightarrow> bind_result (norm_index d i) (\<lambda>i'.
          Inr (take (prod_list ds) (drop (i' * prod_list ds) (data a)))))"

definition getitem2 :: "'a ndarray \<Rightarrow> int \<Rightarrow> int \<Rightarrow> py_error + 'a list" where
  "getitem2 a i j =
     (case shape a of
        d # e # ds \<Rightarrow> bind_result (norm_index d i) (\<lambda>i'.
          bind_result (norm_index e j) (\<lambda>j'.
          Inr (take (prod_list ds) (drop ((i' * e + j') * prod_list ds) (data a)))))
      | _ \<Rightarrow> Inl IndexError)"

fun highlighted_elements :: "real ndarray \<Rightarrow> rect list \<Rightarrow> py_error + real list list" where
  "highlighted_elements a [] = Inr []"
| "highlighted_elements a (rect # rects) =
     (let row = py_int (snd (xy rect) + 1 / 2); col = py_int (fst (xy rect) + 1 / 2)
      in bind_result (if length (shape a) = 1 then getitem1 a col else getitem2 a row col) (\<lambda>v.
         bind_result (highlighted_elements a rects) (\<lambda>vs. Inr (v # vs))))"

text \<open>
  \<open>update_stats\<close> leaves the wrapper as it is; its effect is the caption it sets, which
  is what the model returns. The reductions run over all entries collected.
\<close>

definition update_stats :: "real interactive_array \<Rightarrow> py_error + caption" where
  "update_stats self =
     bind_result (highlighted_elements (arr self) (highlight_rects self)) (\<lambda>elems.
       if elems = [] then Inr Empty_title
       else (let vals = concat elems
             in if vals = [] then Inl ValueError
                else Inr (Stats_title \<lparr>min_val = np_min vals, max_val = np_max vals,
                       median_val = np_median vals, mean_val = np_mean vals,
                       std_val = np_std vals, sum_val = sum_list vals\<rparr>)))"

subsection \<open>\<open>onclick\<close>\<close>

text \<open>
  A pointer event; \<open>xdata\<close> and \<open>ydata\<close> are \<open>None\<close> for a click outside the axes.
\<close>

record event =
  xdata :: "real option"
  ydata :: "real option"

text \<open>
  \<open>onclick\<close> returns the wrapper as the call leaves it, and either the exception that
  ended the call or the caption that \<open>update_stats\<close> set. \<open>None + 0.5\<close> raises
  \<open>TypeError\<close> before anything is changed. The loop stops at the first rectangle whose
  \<open>xy\<close> is the clicked anchor: \<open>rect.remove()\<close> takes it off the axes it was added to
  (the current ones or those of an earlier \<open>display\<close>), then it leaves the list. When
  there is none, the new rectangle is appended to the list first and added to
  \<open>self.ax\<close> second, and \<open>update_stats\<close> runs last.
\<close>

definition onclick :: "event \<Rightarrow> real interactive_array
    \<Rightarrow> real interactive_array \<times> (py_error + caption)" where
  "onclick event self =
     (case (xdata event, ydata event) of
        (Some x, Some y) \<Rightarrow>
          (let col = \<lfloor>x + 1 / 2\<rfloor>; row = \<lfloor>y + 1 / 2\<rfloor>;
               key = (real_of_int col - 1 / 2, real_of_int row - 1 / 2)
           in case find (\<lambda>rect. xy rect = key) (highlight_rects self) of
                Some rect \<Rightarrow>
                  if attached rect then
                    (let self = self\<lparr>
                           ax := map_option (\<lambda>a. a\<lparr>patches := remove1 key (patches a)\<rparr>) (ax self),
                           highlight_rects := remove1 rect (highlight_rects self)\<rparr>
                     in (self, update_stats self))
                  else (self, Inl NotImplementedError)
              | None \<Rightarrow>
                  (case ax self of
                     None \<Rightarrow>
                       (self\<lparr>highlight_rects :=
                           highlight_rects self @ [\<lparr>xy = key, attached = False\<rparr>]\<rparr>,
                        Inl AttributeError)
                   | Some a \<Rightarrow>
                       (let self = self\<lparr>
                              highlight_rects :=
                                highlight_rects self @ [\<lparr>xy = key, attached = True\<rparr>],
                              ax := Some (a\<lparr>patches := patches a @ [key]\<rparr>)\<rparr>
                        in (self, update_stats self))))
      | _ \<Rightarrow> (self, Inl TypeError))"

subsection \<open>\<open>display\<close>\<close>

datatype display_result = Not_supported | Shown "caption option"

text \<open>
  \<open>display(self, clear=True)\<close>. \<open>clear_output\<close> acts on the notebook cell only. The
  handler is connected and \<open>update_stats\<close> is called (when \<open>self.stats\<close>) after the
  axes are drawn; \<open>len(self.arr[0])\<close> raises for an array without rows.
\<close>

definition display :: "bool \<Rightarrow> real interactive_array
    \<Rightarrow> real interactive_array \<times> (py_error + display_result)" where
  "display clear self =
     (let a = arr self;
          finish = (\<lambda>self. (self, if stats self
                                    then bind_result (update_stats self) (\<lambda>c. Inr (Shown (Some c)))
                                    else Inr (Shown None)))
      in case shape a of
           [n] \<Rightarrow>
             finish (self\<lparr>ax := Some (subplots\<lparr>image_shape := (1, n),
                 yticklabels := [], xtick_locs := np_arange n, xticklabels := xticks self,
                 ytick_locs := [],
                 texts := map (\<lambda>i. (int i, 0, data a ! i)) [0..<n]\<rparr>)\<rparr>)
         | [r, c] \<Rightarrow>
             (let axs = subplots\<lparr>image_shape := (r, c),
                    texts := concat (map (\<lambda>i. map (\<lambda>j. (int j, int i, data a ! (i * c + j)))
                               [0..<c]) [0..<r]),
                    xtick_locs := np_arange r, xticklabels := xticks self\<rparr>
              in if r = 0 then (self\<lparr>ax := Some axs\<rparr>, Inl IndexError)
                 else case yticks self of
                        None \<Rightarrow> (self\<lparr>ax := Some (axs\<lparr>ytick_locs := np_arange c\<rparr>)\<rparr>,
                                 Inl AttributeError)
                      | Some yt \<Rightarrow>
                          finish (self\<lparr>ax := Some (axs\<lparr>ytick_locs := np_arange c,
                                     yticklabels := yt\<rparr>)\<rparr>))
         | _ \<Rightarrow> (self, Inr Not_supported))"

text \<open>The set of highlighted cells \<open>(row, col)\<close>, read from the rectangles as
  \<open>update_stats\<close> reads them.\<close>

definition HighlightSet :: "'a interactive_array \<Rightarrow> (int \<times> int) set" where
  "HighlightSet self =
     (\<lambda>rect. (py_int (snd (xy rect) + 1 / 2), py_int (fst (xy rect) + 1 / 2)))
       ` set (highlight_rects self)"

section \<open>\<open>draw_fib_tree\<close>\<close>

text \<open>
  The graphviz \<open>Digraph\<close> as far as the module uses it: the node statements
  \<open>(name, label)\<close> and the edge statements \<open>(tail, head)\<close>, in the order of the calls
  \<open>graph.node\<close> and \<open>graph.edge\<close>.
\<close>

record digraph =
  nodes :: "(string \<times> string) list"
  edges :: "(string \<times> string) list"

definition Digraph :: digraph where
  "Digraph = \<lparr>nodes = [], edges = []\<rparr>"

definition add_node :: "string \<Rightarrow> string \<Rightarrow> digraph \<Rightarrow> digraph" where
  "add_node name lbl g = g\<lparr>nodes := nodes g @ [(name, lbl)]\<rparr>"

definition add_edge :: "string \<Rightarrow> string \<Rightarrow> digraph \<Rightarrow> digraph" where
  "add_edge tail_name head_name g = g\<lparr>edges := edges g @ [(tail_name, head_name)]\<rparr>"

text \<open>
  Python's \<open>str\<close> of an integer, which the f-strings \<open>f"fib({n})_{count}"\<close> and
  \<open>f"fib({n})"\<close> use.
\<close>

definition digit_char :: "nat \<Rightarrow> char" where
  "digit_char d = ''0123456789'' ! d"

function str_nat :: "nat \<Rightarrow> string" where
  "str_nat n = (if n < 10 then [digit_char n] else str_nat (n div 10) @ [digit_char (n mod 10)])"
  by pat_completeness auto
termination
  by (relation "measure id") auto

definition str_int :: "int \<Rightarrow> string" where
  "str_int i = (if i < 0 then CHR ''-'' # str_nat (nat (- i)) else str_nat (nat i))"

definition node_name :: "int \<Rightarrow> nat \<Rightarrow> string" where
  "node_name n count = ''fib('' @ str_int n @ '')_'' @ str_nat count"

definition node_label :: "int \<Rightarrow> string" where
  "node_label n = ''fib('' @ str_int n @ '')''"

declare str_nat.simps [simp del]

text \<open>
  \<open>draw_fib_tree_internal(n, parent=None, graph=None, counter=None)\<close>. The counter
  dictionary is shared by all calls, so the model returns it beside the graph. The
  recursion is defined as a partial function: a call that does not return is \<open>None\<close>,
  and that a call returns is a theorem, not an assumption.
\<close>

partial_function (option) draw_fib_tree_internal ::
  "int \<Rightarrow> string option \<Rightarrow> digraph option \<Rightarrow> (int \<rightharpoonup> nat) option
     \<Rightarrow> (digraph \<times> (int \<rightharpoonup> nat)) option" where
  "draw_fib_tree_internal n parent graph counter =
     (let graph = (case graph of None \<Rightarrow> Digraph | Some g \<Rightarrow> g);
          counter = (case counter of None \<Rightarrow> Map.empty | Some c \<Rightarrow> c);
          count = (case counter n of None \<Rightarrow> 0 | Some k \<Rightarrow> k);
          counter = counter(n \<mapsto> count + 1);
          node = node_name n count;
          graph = add_node node (node_label n) graph;
          graph = (case parent of None \<Rightarrow> graph | Some p \<Rightarrow> add_edge p node graph)
      in if n \<le> 1 then Some (graph, counter)
         else Option.bind (draw_fib_tree_internal (n - 1) (Some node) (Some graph) (Some counter))
                (\<lambda>(graph, counter).
                   draw_fib_tree_internal (n - 2) (Some node) (Some graph) (Some counter)))"

declare draw_fib_tree_internal.simps [code]

text \<open>\<open>draw_fib_tree(n)\<close> builds the graph and hands it to \<open>display\<close>.\<close>

definition draw_fib_tree :: "int \<Rightarrow> digraph option" where
  "draw_fib_tree n = map_option fst (draw_fib_tree_internal n None None None)"

section \<open>Notions used in the statements\<close>

text \<open>The Fibonacci numbers, with \<open>fib 0 = 0\<close> and \<open>fib 1 = 1\<close>.\<close>

fun fib :: "nat \<Rightarrow> nat" where
  "fib 0 = 0"
| "fib (Suc 0) = 1"
| "fib (Suc (Suc k)) = fib (Suc k) + fib k"

text \<open>
  The node names of a graph, the number of edges leaving a node, the counter's value
  \<open>counter.get(m, 0)\<close>, and the invariant the builder keeps: node names are distinct,
  each is \<open>fib(m)_k\<close> for some \<open>k\<close> below the counter of \<open>m\<close>, and edges leave
  existing nodes.
\<close>

definition names :: "digraph \<Rightarrow> string list" where
  "names g = map fst (nodes g)"

definition out_degree :: "digraph \<Rightarrow> string \<Rightarrow> nat" where
  "out_degree g x = length (filter (\<lambda>e. fst e = x) (edges g))"

definition cnt :: "(int \<rightharpoonup> nat) \<Rightarrow> int \<Rightarrow> nat" where
  "cnt c m = (case c m of None \<Rightarrow> 0 | Some k \<Rightarrow> k)"

definition graph_inv :: "digraph \<Rightarrow> (int \<rightharpoonup> nat) \<Rightarrow> bool" where
  "graph_inv g c = (distinct (names g)
     \<and> (\<forall>x \<in> set (names g). \<exists>m k. x = node_name m k \<and> k < cnt c m)
     \<and> (\<forall>e \<in> set (edges g). fst e \<in> set (names g)))"

text \<open>
  The states in which click events arrive. \<open>display\<close> connects \<open>onclick\<close> to the
  canvas only after it has set \<open>self.ax\<close>; from then on every rectangle in the list was
  added to some axes, and no two rectangles have the same anchor (\<open>onclick\<close> appends one
  only when none with that anchor is there). \<open>live_after_first_display\<close>,
  \<open>live_display\<close> and \<open>live_after_click\<close> below show that construction followed by
  any sequence of \<open>display\<close> and \<open>onclick\<close> stays in these states.

  \<open>cell_key\<close> is the anchor \<open>onclick\<close> computes from the pointer position, and
  \<open>toggled\<close> is what \<open>onclick\<close> does to the list of rectangles when the axes exist.
\<close>

definition live :: "real interactive_array \<Rightarrow> bool" where
  "live self = (ax self \<noteq> None \<and> list_all attached (highlight_rects self)
     \<and> distinct (map xy (highlight_rects self)))"

definition cell_key :: "real \<Rightarrow> real \<Rightarrow> real \<times> real" where
  "cell_key x y = (real_of_int \<lfloor>x + 1 / 2\<rfloor> - 1 / 2, real_of_int \<lfloor>y + 1 / 2\<rfloor> - 1 / 2)"

definition toggled :: "real \<times> real \<Rightarrow> rect list \<Rightarrow> rect list" where
  "toggled k rs =
     (case find (\<lambda>r. xy r = k) rs of
        Some rect \<Rightarrow> if attached rect then remove1 rect rs else rs
      | None \<Rightarrow> rs @ [\<lparr>xy = k, attached = True\<rparr>])"

text \<open>
  Concrete wrappers: \<open>InteractiveArray(np.array([10., 20., 30.]))\<close>, the same after
  \<open>display()\<close>, \<open>InteractiveArray(np.array([10., 0., 30.]))\<close> and the wrapper of the
  2 by 3 array \<open>[[1, 2, 3], [4, 5, 6]]\<close>.
\<close>

definition example_vector :: "real interactive_array" where
  "example_vector = \<lparr>arr = \<lparr>shape = [3], data = [10, 20, 30]\<rparr>, stats = False,
     highlight_rects = [], ax = None, self_shape = [3],
     xticks = [IntLabel 0, IntLabel 1, IntLabel 2], yticks = None\<rparr>"

definition example_2x3 :: "real interactive_array" where
  "example_2x3 = \<lparr>arr = \<lparr>shape = [2, 3], data = [1, 2, 3, 4, 5, 6]\<rparr>, stats = False,
     highlight_rects = [], ax = None, self_shape = [2, 3],
     xticks = [IntLabel 0, IntLabel 1], yticks = Some [IntLabel 0, IntLabel 1, IntLabel 2]\<rparr>"

definition example_shown :: "real interactive_array" where
  "example_shown = fst (display True example_vector)"

definition example_other :: "real interactive_array" where
  "example_other = \<lparr>arr = \<lparr>shape = [3], data = [10, 0, 30]\<rparr>, stats = False,
     highlight_rects = [], ax = None, self_shape = [3],
     xticks = [IntLabel 0, IntLabel 1, IntLabel 2], yticks = None\<rparr>"

section \<open>Construction\<close>

lemma wrap_scalar_fails: "wrap (np_scalar v) = Inl IndexError"
  by (simp add: wrap_def InteractiveArray_def bind_result_def tuple_get_def np_scalar_def)

lemma wrap_rank_pos:
  "shape a = d # ds \<Longrightarrow>
   wrap a = Inr \<lparr>arr = a, stats = False, highlight_rects = [], ax = None, self_shape = d # ds,
     xticks = arange_labels d,
     yticks = (case ds of [] \<Rightarrow> None | e # _ \<Rightarrow> Some (arange_labels e))\<rparr>"
  by (cases ds) (simp_all add: wrap_def InteractiveArray_def bind_result_def tuple_get_def)

text \<open>
  C10. Constructing the wrapper from an input without a \<open>.shape\<close> attribute, such as
  a plain Python list of numbers, raises \<open>AttributeError\<close>, whatever the other
  arguments are: \<open>np.array\<close> converts the buffer (the list becomes an array of rank
  one), but \<open>.shape\<close> is read from the raw argument.
\<close>

theorem init_plain_list_AttributeError:
  "InteractiveArray (PyList xs) st xt yt = Inl AttributeError
   \<and> InteractiveArray (PyScalar v) st xt yt = Inl AttributeError
   \<and> shape (np_array (PyList xs)) = [length xs]"
  by (simp add: InteractiveArray_def bind_result_def)

lemma np_arange_small: "np_arange 2 = [0, 1]" "np_arange 3 = [0, 1, 2]"
  by (simp_all add: np_arange_def numeral_2_eq_2 numeral_3_eq_3)

lemma example_vector_wrap: "wrap \<lparr>shape = [3], data = [10, 20, 30]\<rparr> = Inr example_vector"
  by (simp add: wrap_rank_pos example_vector_def arange_labels_def np_arange_small)

lemma example_2x3_wrap: "wrap \<lparr>shape = [2, 3], data = [1, 2, 3, 4, 5, 6]\<rparr> = Inr example_2x3"
  by (simp add: wrap_rank_pos example_2x3_def arange_labels_def np_arange_small)

lemma example_other_wrap: "wrap \<lparr>shape = [3], data = [10, 0, 30]\<rparr> = Inr example_other"
  by (simp add: wrap_rank_pos example_other_def arange_labels_def np_arange_small)

section \<open>\<open>sum\<close>\<close>

lemma ia_sum_rank2:
  assumes "shape (arr self) = [r, c]"
  shows "ia_sum self (Some 0) = wrap \<lparr>shape = [c],
           data = map (\<lambda>i. sum_list (map (\<lambda>j. data (arr self) ! (j * c + i)) [0..<r])) [0..<c]\<rparr>"
    and "ia_sum self (Some 1) = wrap \<lparr>shape = [r],
           data = map (\<lambda>i. sum_list (map (\<lambda>j. data (arr self) ! (i * c + j)) [0..<c])) [0..<r]\<rparr>"
  using assms by (simp_all add: ia_sum_def np_sum_def bind_result_def Let_def)

lemma ia_sum_rank1: "shape (arr self) = [n] \<Longrightarrow> ia_sum self (Some 0) = Inl IndexError"
  by (simp add: ia_sum_def np_sum_def bind_result_def Let_def wrap_def InteractiveArray_def
      tuple_get_def)

text \<open>
  C6. The claim: for every wrapped array and every axis argument, the default
  \<open>axis=None\<close> included, \<open>sum(axis)\<close> succeeds and returns a new wrapped instance
  holding the sum. The code: with the default axis \<open>np.sum\<close> returns a scalar, whose
  shape is \<open>()\<close>, and the constructor's \<open>np.arange(arr.shape[0])\<close> raises
  \<open>IndexError\<close>; so \<open>sum()\<close> fails on every wrapped array. (\<open>ia_sum_rank2\<close> shows
  the reduction along an axis of a rank-2 array returning the wrapped sums, and
  \<open>ia_sum_rank1\<close> the same failure for the only axis of a rank-1 array.)
\<close>

theorem sum_default_axis_raises: "ia_sum self None = Inl IndexError"
  by (simp add: ia_sum_def np_sum_def bind_result_def wrap_scalar_fails)

section \<open>Elementwise operators\<close>

lemma broadcast_rev_same: "broadcast_rev xs xs = Some xs"
  by (induction xs) simp_all

lemma broadcast_shapes_same: "broadcast_shapes s s = Some s"
  by (simp add: broadcast_shapes_def broadcast_rev_same)

lemma broadcast_rev_Nil2: "broadcast_rev xs [] = Some xs"
  by (cases xs) simp_all

lemma broadcast_shapes_scalar: "broadcast_shapes s [] = Some s"
  by (simp add: broadcast_shapes_def broadcast_rev_Nil2)

lemma length_unravel [simp]: "length (unravel s i) = length s"
  by (induction s arbitrary: i) simp_all

lemma ravel_unravel:
  "i < prod_list s \<Longrightarrow> ravel s (map2 stretch s (unravel s i)) = i"
proof (induction s arbitrary: i)
  case Nil
  then show ?case by simp
next
  case (Cons d ds)
  let ?P = "prod_list ds"
  from Cons.prems have lt: "i < d * ?P" by simp
  then have P: "0 < ?P" by (cases "?P = 0") simp_all
  then have "i mod ?P < ?P" by simp
  from Cons.IH [OF this] have
    ih: "ravel ds (map2 stretch ds (unravel ds (i mod ?P))) = i mod ?P" .
  have k: "stretch d (i div ?P) = i div ?P" using lt by (auto simp: stretch_def)
  show ?case by (simp add: ih k)
qed

lemma broadcast_get_same:
  "i < prod_list (shape a) \<Longrightarrow> broadcast_get a (shape a) i = data a ! i"
  by (simp add: broadcast_get_def ravel_unravel)

lemma broadcast_get_scalar: "broadcast_get (np_scalar v) rs i = v"
  by (simp add: broadcast_get_def np_scalar_def)

lemma np_binop_same_shape:
  assumes "shape a = shape b" "wf_ndarray a" "wf_ndarray b"
  shows "np_binop f a b = Inr \<lparr>shape = shape a, data = map2 f (data a) (data b)\<rparr>"
proof -
  let ?n = "prod_list (shape a)"
  have la: "length (data a) = ?n" and lb: "length (data b) = ?n"
    using assms by (simp_all add: wf_ndarray_def)
  have "map (\<lambda>i. f (broadcast_get a (shape a) i) (broadcast_get b (shape a) i)) [0..<?n]
        = map2 f (data a) (data b)"
  proof (rule nth_equalityI)
    show "length (map (\<lambda>i. f (broadcast_get a (shape a) i) (broadcast_get b (shape a) i)) [0..<?n])
          = length (map2 f (data a) (data b))"
      by (simp add: la lb)
  next
    fix i assume "i < length (map (\<lambda>i. f (broadcast_get a (shape a) i) (broadcast_get b (shape a) i)) [0..<?n])"
    then have i: "i < ?n" by simp
    then have "broadcast_get a (shape a) i = data a ! i" by (rule broadcast_get_same)
    moreover have "broadcast_get b (shape a) i = data b ! i"
      using i broadcast_get_same [of i b] assms(1) by simp
    ultimately show "map (\<lambda>i. f (broadcast_get a (shape a) i) (broadcast_get b (shape a) i)) [0..<?n] ! i
          = map2 f (data a) (data b) ! i"
      using i by (simp add: la lb)
  qed
  then show ?thesis
    using assms(1) by (simp add: np_binop_def broadcast_shapes_same [of "shape b"])
qed

lemma np_binop_scalar:
  assumes "wf_ndarray a"
  shows "np_binop f a (np_scalar v) = Inr \<lparr>shape = shape a, data = map (\<lambda>x. f x v) (data a)\<rparr>"
proof -
  let ?n = "prod_list (shape a)"
  have la: "length (data a) = ?n" using assms by (simp add: wf_ndarray_def)
  have "map (\<lambda>i. f (broadcast_get a (shape a) i) (broadcast_get (np_scalar v) (shape a) i)) [0..<?n]
        = map (\<lambda>x. f x v) (data a)"
    by (rule nth_equalityI) (simp_all add: la broadcast_get_same broadcast_get_scalar)
  then show ?thesis
    by (simp add: np_binop_def broadcast_shapes_scalar np_scalar_def [of v, THEN arg_cong [of _ _ shape]])
qed

lemma operators_same_shape:
  fixes self other :: "'a::{plus,minus,times,ord} interactive_array"
  assumes "shape (arr other) = shape (arr self)" "wf_ndarray (arr self)" "wf_ndarray (arr other)"
  shows "ia_add self (Wrapped other)
           = wrap \<lparr>shape = shape (arr self), data = map2 (+) (data (arr self)) (data (arr other))\<rparr>"
    and "ia_sub self (Wrapped other)
           = wrap \<lparr>shape = shape (arr self), data = map2 (-) (data (arr self)) (data (arr other))\<rparr>"
    and "ia_mul self (Wrapped other)
           = wrap \<lparr>shape = shape (arr self), data = map2 (*) (data (arr self)) (data (arr other))\<rparr>"
    and "ia_truediv dv self (Wrapped other)
           = wrap \<lparr>shape = shape (arr self), data = map2 dv (data (arr self)) (data (arr other))\<rparr>"
    and "ia_pow pw self (Wrapped other)
           = wrap \<lparr>shape = shape (arr self), data = map2 pw (data (arr self)) (data (arr other))\<rparr>"
    and "ia_gt self (Wrapped other)
           = wrap \<lparr>shape = shape (arr self), data = map2 (>) (data (arr self)) (data (arr other))\<rparr>"
    and "ia_lt self (Wrapped other)
           = wrap \<lparr>shape = shape (arr self), data = map2 (<) (data (arr self)) (data (arr other))\<rparr>"
    and "ia_ge self (Wrapped other)
           = wrap \<lparr>shape = shape (arr self), data = map2 (\<ge>) (data (arr self)) (data (arr other))\<rparr>"
    and "ia_le self (Wrapped other)
           = wrap \<lparr>shape = shape (arr self), data = map2 (\<le>) (data (arr self)) (data (arr other))\<rparr>"
    and "ia_eq self (Wrapped other)
           = wrap \<lparr>shape = shape (arr self), data = map2 (=) (data (arr self)) (data (arr other))\<rparr>"
  using assms by (simp_all add: np_binop_same_shape bind_result_def)

lemma operators_raw_array:
  fixes self :: "'a::{plus,minus,times,ord} interactive_array"
  assumes "shape b = shape (arr self)" "wf_ndarray (arr self)" "wf_ndarray b"
  shows "ia_add self (RawArray b)
           = wrap \<lparr>shape = shape (arr self), data = map2 (+) (data (arr self)) (data b)\<rparr>"
    and "ia_sub self (RawArray b)
           = wrap \<lparr>shape = shape (arr self), data = map2 (-) (data (arr self)) (data b)\<rparr>"
    and "ia_mul self (RawArray b)
           = wrap \<lparr>shape = shape (arr self), data = map2 (*) (data (arr self)) (data b)\<rparr>"
    and "ia_truediv dv self (RawArray b)
           = wrap \<lparr>shape = shape (arr self), data = map2 dv (data (arr self)) (data b)\<rparr>"
    and "ia_pow pw self (RawArray b)
           = wrap \<lparr>shape = shape (arr self), data = map2 pw (data (arr self)) (data b)\<rparr>"
    and "ia_gt self (RawArray b)
           = wrap \<lparr>shape = shape (arr self), data = map2 (>) (data (arr self)) (data b)\<rparr>"
    and "ia_lt self (RawArray b)
           = wrap \<lparr>shape = shape (arr self), data = map2 (<) (data (arr self)) (data b)\<rparr>"
    and "ia_ge self (RawArray b)
           = wrap \<lparr>shape = shape (arr self), data = map2 (\<ge>) (data (arr self)) (data b)\<rparr>"
    and "ia_le self (RawArray b)
           = wrap \<lparr>shape = shape (arr self), data = map2 (\<le>) (data (arr self)) (data b)\<rparr>"
    and "ia_eq self (RawArray b)
           = wrap \<lparr>shape = shape (arr self), data = map2 (=) (data (arr self)) (data b)\<rparr>"
  using assms by (simp_all add: np_binop_same_shape bind_result_def)

lemma operators_scalar:
  fixes self :: "'a::{plus,minus,times,ord} interactive_array"
  assumes "wf_ndarray (arr self)"
  shows "ia_add self (RawScalar v)
           = wrap \<lparr>shape = shape (arr self), data = map (\<lambda>x. x + v) (data (arr self))\<rparr>"
    and "ia_sub self (RawScalar v)
           = wrap \<lparr>shape = shape (arr self), data = map (\<lambda>x. x - v) (data (arr self))\<rparr>"
    and "ia_mul self (RawScalar v)
           = wrap \<lparr>shape = shape (arr self), data = map (\<lambda>x. x * v) (data (arr self))\<rparr>"
    and "ia_truediv dv self (RawScalar v)
           = wrap \<lparr>shape = shape (arr self), data = map (\<lambda>x. dv x v) (data (arr self))\<rparr>"
    and "ia_pow pw self (RawScalar v)
           = wrap \<lparr>shape = shape (arr self), data = map (\<lambda>x. pw x v) (data (arr self))\<rparr>"
    and "ia_gt self (RawScalar v)
           = wrap \<lparr>shape = shape (arr self), data = map (\<lambda>x. x > v) (data (arr self))\<rparr>"
    and "ia_lt self (RawScalar v)
           = wrap \<lparr>shape = shape (arr self), data = map (\<lambda>x. x < v) (data (arr self))\<rparr>"
    and "ia_ge self (RawScalar v)
           = wrap \<lparr>shape = shape (arr self), data = map (\<lambda>x. x \<ge> v) (data (arr self))\<rparr>"
    and "ia_le self (RawScalar v)
           = wrap \<lparr>shape = shape (arr self), data = map (\<lambda>x. x \<le> v) (data (arr self))\<rparr>"
    and "ia_eq self (RawScalar v)
           = wrap \<lparr>shape = shape (arr self), data = map (\<lambda>x. x = v) (data (arr self))\<rparr>"
  using assms by (simp_all add: np_binop_scalar bind_result_def)

lemma ia_ne_never_True: "ia_ne self other \<noteq> Inr True"
  by (cases "ia_eq self other") (simp_all add: ia_ne_def bind_result_def truth_value_def)

text \<open>
  C4. The claim: each of add, subtract, multiply, divide, power and the six comparisons
  \<open>>\<close>, \<open><\<close>, \<open>>=\<close>, \<open><=\<close>, \<open>==\<close>, \<open>!=\<close> returns a new wrapper holding the
  elementwise result. The ten operators the class defines do (\<open>operators_same_shape\<close>,
  \<open>operators_raw_array\<close>, \<open>operators_scalar\<close>; \<open>wrap_rank_pos\<close> gives the fresh wrapper:
  no highlight, default labels). The class defines no \<open>__ne__\<close>: for the wrappers of
  \<open>[10, 20, 30]\<close> and \<open>[10, 0, 30]\<close>, \<open>==\<close> returns the wrapper of
  \<open>[True, False, True]\<close>, and \<open>!=\<close> returns the bare Python value \<open>False\<close>, not a
  wrapper of \<open>[False, True, False]\<close>.
\<close>

theorem ne_returns_bare_False:
  "ia_ne example_vector (Wrapped example_other) = Inr False
   \<and> ia_eq example_vector (Wrapped example_other)
       = Inr \<lparr>arr = \<lparr>shape = [3], data = [True, False, True]\<rparr>, stats = False,
              highlight_rects = [], ax = None, self_shape = [3],
              xticks = [IntLabel 0, IntLabel 1, IntLabel 2], yticks = None\<rparr>"
proof -
  have s: "shape (arr example_other) = shape (arr example_vector)"
    and w: "wf_ndarray (arr example_vector)" "wf_ndarray (arr example_other)"
    by (simp_all add: example_vector_def example_other_def wf_ndarray_def)
  have e: "ia_eq example_vector (Wrapped example_other)
       = Inr \<lparr>arr = \<lparr>shape = [3], data = [True, False, True]\<rparr>, stats = False,
              highlight_rects = [], ax = None, self_shape = [3],
              xticks = [IntLabel 0, IntLabel 1, IntLabel 2], yticks = None\<rparr>"
    unfolding operators_same_shape(10) [OF s w]
    by (simp add: example_vector_def example_other_def wrap_rank_pos arange_labels_def
        np_arange_small)
  then show ?thesis by (simp add: ia_ne_def bind_result_def truth_value_def)
qed

section \<open>Statistics\<close>

lemma py_int_of_int [simp]: "py_int (real_of_int k) = k"
  by (simp add: py_int_def)

lemma cell_roundtrip [simp]: "py_int (real_of_int k - 1 / 2 + 1 / 2) = k"
  by (simp add: py_int_def)

lemma py_int_numerals [simp]:
  "py_int 0 = 0" "py_int 1 = 1" "py_int (numeral k) = numeral k"
  "py_int (- 1) = - 1" "py_int (- numeral k) = - numeral k"
  using py_int_of_int [of 0] py_int_of_int [of 1] py_int_of_int [of "numeral k"]
    py_int_of_int [of "- 1"] py_int_of_int [of "- numeral k"]
  by simp_all

lemma norm_index_nonneg: "0 \<le> i \<Longrightarrow> i < int d \<Longrightarrow> norm_index d i = Inr (nat i)"
  by (simp add: norm_index_def)


lemma norm_index_out: "i < - int d \<or> int d \<le> i \<Longrightarrow> norm_index d i = Inl IndexError"
  by (auto simp: norm_index_def)

lemma take1_drop: "k < length xs \<Longrightarrow> take (Suc 0) (drop k xs) = [xs ! k]"
  by (simp add: take_Suc_conv_app_nth)

lemma getitem1_rank1:
  "shape a = [n] \<Longrightarrow> wf_ndarray a \<Longrightarrow> 0 \<le> i \<Longrightarrow> i < int n \<Longrightarrow> getitem1 a i = Inr [data a ! nat i]"
  by (simp add: getitem1_def norm_index_nonneg bind_result_def wf_ndarray_def take1_drop)

lemma getitem2_rank2:
  assumes "shape a = [r, c]" "wf_ndarray a" "0 \<le> i" "i < int r" "0 \<le> j" "j < int c"
  shows "getitem2 a i j = Inr [data a ! (nat i * c + nat j)]"
proof -
  have i: "Suc (nat i) \<le> r" and j: "nat j < c" using assms by auto
  have "nat i * c + nat j < nat i * c + c" using j by simp
  also have "\<dots> = Suc (nat i) * c" by simp
  also have "\<dots> \<le> r * c" using i by (rule mult_le_mono1)
  finally have "nat i * c + nat j < r * c" .
  then show ?thesis using assms
    by (simp add: getitem2_def norm_index_nonneg bind_result_def wf_ndarray_def take1_drop)
qed

lemma stats_singleton:
  "np_min [v] = v" "np_max [v] = v" "np_median [v] = v" "np_mean [v] = v" "np_std [v] = 0"
  by (simp_all add: np_min_def np_max_def np_median_def np_mean_def np_std_def)

text \<open>
  C3. For every wrapped array of rank 1 or 2, \<open>update_stats\<close> over a highlight list
  holding exactly one in-bounds cell \<open>(row, col)\<close> sets the statistics caption with
  std = 0 and min = max = median = mean = sum = the value at that cell; over an empty
  highlight list it sets the empty caption instead.
\<close>

theorem update_stats_single_cell:
  assumes "wf_ndarray (arr self)"
    and "shape (arr self) = [n] \<and> 0 \<le> col \<and> col < int n \<and> v = data (arr self) ! nat col
       \<or> shape (arr self) = [r, n] \<and> 0 \<le> row \<and> row < int r \<and> 0 \<le> col \<and> col < int n
           \<and> v = data (arr self) ! (nat row * n + nat col)"
  shows "update_stats (self\<lparr>highlight_rects :=
             [\<lparr>xy = (real_of_int col - 1 / 2, real_of_int row - 1 / 2), attached = t\<rparr>]\<rparr>)
           = Inr (Stats_title \<lparr>min_val = v, max_val = v, median_val = v, mean_val = v,
                   std_val = 0, sum_val = v\<rparr>)
       \<and> update_stats (self\<lparr>highlight_rects := []\<rparr>) = Inr Empty_title"
proof
  show "update_stats (self\<lparr>highlight_rects := []\<rparr>) = Inr Empty_title"
    by (simp add: update_stats_def bind_result_def)
  from assms(2) show "update_stats (self\<lparr>highlight_rects :=
             [\<lparr>xy = (real_of_int col - 1 / 2, real_of_int row - 1 / 2), attached = t\<rparr>]\<rparr>)
           = Inr (Stats_title \<lparr>min_val = v, max_val = v, median_val = v, mean_val = v,
                   std_val = 0, sum_val = v\<rparr>)"
  proof
    assume "shape (arr self) = [n] \<and> 0 \<le> col \<and> col < int n \<and> v = data (arr self) ! nat col"
    then show ?thesis using assms(1)
      by (simp add: update_stats_def bind_result_def getitem1_rank1 stats_singleton)
  next
    assume "shape (arr self) = [r, n] \<and> 0 \<le> row \<and> row < int r \<and> 0 \<le> col \<and> col < int n
           \<and> v = data (arr self) ! (nat row * n + nat col)"
    then show ?thesis using assms(1)
      by (simp add: update_stats_def bind_result_def getitem2_rank2 stats_singleton)
  qed
qed

theorem update_stats_single_cell_witness:
  "update_stats (example_vector\<lparr>highlight_rects := [\<lparr>xy = (1 / 2, - 1 / 2), attached = True\<rparr>]\<rparr>)
     = Inr (Stats_title \<lparr>min_val = 20, max_val = 20, median_val = 20, mean_val = 20,
              std_val = 0, sum_val = 20\<rparr>)
   \<and> update_stats (example_vector\<lparr>highlight_rects := []\<rparr>) = Inr Empty_title"
proof -
  have w: "wf_ndarray (arr example_vector)"
    by (simp add: example_vector_def wf_ndarray_def)
  have h: "shape (arr example_vector) = [3] \<and> 0 \<le> (1::int) \<and> 1 < int 3
             \<and> 20 = data (arr example_vector) ! nat 1
       \<or> shape (arr example_vector) = [0, 3] \<and> 0 \<le> (0::int) \<and> 0 < int 0 \<and> 0 \<le> (1::int)
             \<and> 1 < int 3 \<and> 20 = data (arr example_vector) ! (nat 0 * 3 + nat 1)"
    by (simp add: example_vector_def)
  from update_stats_single_cell [OF w h, of True] show ?thesis by simp
qed

section \<open>Clicks\<close>

lemma find_append_None:
  "find P xs = None \<Longrightarrow> find P (xs @ ys) = find P ys"
  by (induction xs) (auto split: if_splits)

lemma find_xy_mem: "find (\<lambda>r. xy r = k) rs = Some r \<Longrightarrow> r \<in> set rs \<and> xy r = k"
  by (induction rs) (auto split: if_splits)

lemma find_xy_None: "find (\<lambda>r. xy r = k) rs = None \<Longrightarrow> r \<in> set rs \<Longrightarrow> xy r \<noteq> k"
  by (induction rs) (auto split: if_splits)

lemma highlights_after_click:
  assumes "xdata e = Some x" "ydata e = Some y" "ax self \<noteq> None"
  shows "highlight_rects (fst (onclick e self)) = toggled (cell_key x y) (highlight_rects self)"
  using assms
  by (auto simp: onclick_def cell_key_def toggled_def Let_def split: option.splits)

lemma ax_after_click: "ax self \<noteq> None \<Longrightarrow> ax (fst (onclick e self)) \<noteq> None"
  by (auto simp: onclick_def Let_def split: option.splits)

lemma remove1_no_key:
  assumes d: "distinct (map xy rs)" and m: "rect \<in> set rs"
  shows "find (\<lambda>r. xy r = xy rect) (remove1 rect rs) = None"
proof -
  from d have dr: "distinct rs" and inj: "inj_on xy (set rs)" by (simp_all add: distinct_map)
  have "\<forall>r \<in> set (remove1 rect rs). xy r \<noteq> xy rect"
  proof
    fix r assume "r \<in> set (remove1 rect rs)"
    with dr have "r \<in> set rs" "r \<noteq> rect" by simp_all
    with inj m show "xy r \<noteq> xy rect" by (auto dest: inj_onD)
  qed
  then show ?thesis by (simp add: find_None_iff)
qed

lemma toggle_twice_list:
  assumes att: "list_all attached rs" and d: "distinct (map xy rs)"
  shows "set (toggled k (toggled k rs)) = set rs"
proof (cases "find (\<lambda>r. xy r = k) rs")
  case None
  let ?new = "\<lparr>xy = k, attached = True\<rparr>"
  have o: "toggled k rs = rs @ [?new]" using None by (simp add: toggled_def)
  have f: "find (\<lambda>r. xy r = k) (rs @ [?new]) = Some ?new"
    using find_append_None [OF None, of "[?new]"] by simp
  have "?new \<notin> set rs" using find_xy_None [OF None, of ?new] by auto
  then have r: "remove1 ?new (rs @ [?new]) = rs" by (simp add: remove1_append)
  have "toggled k (rs @ [?new]) = remove1 ?new (rs @ [?new])"
    using f by (simp add: toggled_def)
  then show ?thesis by (simp only: o r)
next
  case (Some rect)
  from find_xy_mem [OF Some] have m: "rect \<in> set rs" and k: "xy rect = k" by simp_all
  from att m have a: "attached rect" by (simp add: list_all_iff)
  have o: "toggled k rs = remove1 rect rs" using Some a by (simp add: toggled_def)
  have f: "find (\<lambda>r. xy r = k) (remove1 rect rs) = None"
    using remove1_no_key [OF d m] by (simp add: k)
  have e: "\<lparr>xy = k, attached = True\<rparr> = rect" using a k by simp
  from d have "distinct rs" by (simp add: distinct_map)
  then have r: "set (remove1 rect rs) = set rs - {rect}" by simp
  have "toggled k (remove1 rect rs) = remove1 rect rs @ [rect]"
    using f by (simp add: toggled_def e)
  then have "set (toggled k (toggled k rs)) = insert rect (set rs - {rect})"
    by (simp add: o r)
  with m show ?thesis by auto
qed

lemma live_after_click:
  assumes "live self"
  shows "live (fst (onclick e self))"
proof (cases "xdata e")
  case None
  then show ?thesis using assms by (simp add: onclick_def)
next
  case x: (Some x)
  show ?thesis
  proof (cases "ydata e")
    case None
    then show ?thesis using assms x by (simp add: onclick_def)
  next
    case y: (Some y)
    let ?rs = "highlight_rects self"
    from assms have a: "ax self \<noteq> None" and att: "list_all attached ?rs"
      and d: "distinct (map xy ?rs)" by (simp_all add: live_def)
    note h = highlights_after_click [OF x y a]
    show ?thesis
    proof (cases "find (\<lambda>r. xy r = cell_key x y) ?rs")
      case None
      then have "\<forall>r \<in> set ?rs. xy r \<noteq> cell_key x y" using find_xy_None by blast
      then have "cell_key x y \<notin> xy ` set ?rs" by auto
      with None a att d show ?thesis
        unfolding live_def using ax_after_click [OF a, of e] by (simp add: h toggled_def)
    next
      case (Some rect)
      from d have "distinct (map xy (remove1 rect ?rs))"
        by (simp add: distinct_map inj_on_def)
      moreover from att have "list_all attached (remove1 rect ?rs)"
        by (auto simp: list_all_iff dest: notin_set_remove1)
      ultimately show ?thesis using Some a att d
        unfolding live_def using ax_after_click [OF a, of e] by (simp add: h toggled_def)
    qed
  qed
qed

lemma live_display: "live self \<Longrightarrow> live (fst (display clear self))"
  by (simp add: display_def live_def Let_def split: list.splits option.splits)

lemma live_after_first_display:
  assumes "wrap a = Inr w" and "shape a = [n] \<or> shape a = [r, c] \<and> 0 < r"
  shows "live (fst (display clear w))"
proof -
  from assms(2) obtain d ds where s: "shape a = d # ds" by auto
  from wrap_rank_pos [OF s] assms(1) have
    w: "arr w = a" "highlight_rects w = []" "yticks w = (case ds of [] \<Rightarrow> None | e # _ \<Rightarrow> Some (arange_labels e))"
    by auto
  from assms(2) show ?thesis
    using w s by (auto simp: display_def live_def Let_def)
qed

text \<open>
  C2. In every state in which click events arrive (\<open>live\<close>), two successive clicks
  that map to the same cell leave the set of highlighted rectangles, and so the
  HighlightSet, as it was before the first: the toggle is an involution. This holds for
  every cell, those within the array bounds included, and whether or not
  \<open>update_stats\<close> raises after the list was changed.
\<close>

theorem onclick_twice_restores_highlights:
  assumes "live self"
    and "xdata e1 = Some x1" "ydata e1 = Some y1" "xdata e2 = Some x2" "ydata e2 = Some y2"
    and "\<lfloor>x1 + 1 / 2\<rfloor> = \<lfloor>x2 + 1 / 2\<rfloor>" "\<lfloor>y1 + 1 / 2\<rfloor> = \<lfloor>y2 + 1 / 2\<rfloor>"
  shows "set (highlight_rects (fst (onclick e2 (fst (onclick e1 self))))) = set (highlight_rects self)
     \<and> HighlightSet (fst (onclick e2 (fst (onclick e1 self)))) = HighlightSet self"
proof -
  let ?s1 = "fst (onclick e1 self)"
  from assms(1) have a: "ax self \<noteq> None" and att: "list_all attached (highlight_rects self)"
    and d: "distinct (map xy (highlight_rects self))" by (simp_all add: live_def)
  have a1: "ax ?s1 \<noteq> None" using a by (rule ax_after_click)
  have k: "cell_key x2 y2 = cell_key x1 y1" using assms(6,7) by (simp add: cell_key_def)
  have "set (highlight_rects (fst (onclick e2 ?s1))) = set (highlight_rects self)"
    using toggle_twice_list [OF att d, of "cell_key x1 y1"]
    by (simp add: highlights_after_click [OF assms(4,5) a1] highlights_after_click [OF assms(2,3) a] k)
  then show ?thesis by (simp add: HighlightSet_def)
qed

lemma example_shown_facts:
  "arr example_shown = \<lparr>shape = [3], data = [10, 20, 30]\<rparr>"
  "highlight_rects example_shown = []"
  "ax example_shown = Some (the (ax example_shown))"
  by (simp_all add: example_shown_def display_def example_vector_def Let_def)

lemma example_shown_live: "live example_shown"
  unfolding example_shown_def
  by (rule live_after_first_display [OF example_vector_wrap, of 3 0 0]) simp

theorem onclick_twice_witness:
  "HighlightSet (fst (onclick \<lparr>xdata = Some (1 / 4), ydata = Some 0\<rparr>
       (fst (onclick \<lparr>xdata = Some 0, ydata = Some (1 / 4)\<rparr> example_shown))))
     = HighlightSet example_shown
   \<and> highlight_rects (fst (onclick \<lparr>xdata = Some 0, ydata = Some (1 / 4)\<rparr> example_shown))
     = [\<lparr>xy = (- 1 / 2, - 1 / 2), attached = True\<rparr>]"
proof -
  have "highlight_rects (fst (onclick \<lparr>xdata = Some 0, ydata = Some (1 / 4)\<rparr> example_shown))
     = [\<lparr>xy = (- 1 / 2, - 1 / 2), attached = True\<rparr>]"
  proof -
    have "ax example_shown \<noteq> None" using example_shown_live by (simp add: live_def)
    then have "highlight_rects (fst (onclick \<lparr>xdata = Some 0, ydata = Some (1 / 4)\<rparr> example_shown))
       = toggled (cell_key 0 (1 / 4)) (highlight_rects example_shown)"
      by (intro highlights_after_click) simp_all
    then show ?thesis by (simp add: example_shown_facts(2) toggled_def cell_key_def)
  qed
  moreover have "HighlightSet (fst (onclick \<lparr>xdata = Some (1 / 4), ydata = Some 0\<rparr>
       (fst (onclick \<lparr>xdata = Some 0, ydata = Some (1 / 4)\<rparr> example_shown))))
     = HighlightSet example_shown"
    using onclick_twice_restores_highlights [OF example_shown_live,
        of "\<lparr>xdata = Some 0, ydata = Some (1 / 4)\<rparr>" 0 "1 / 4"
           "\<lparr>xdata = Some (1 / 4), ydata = Some 0\<rparr>" "1 / 4" 0]
    by simp
  ultimately show ?thesis by simp
qed

section \<open>Clicks outside the array\<close>










section \<open>\<open>display\<close>\<close>

lemma display_keeps_highlights: "highlight_rects (fst (display clear self)) = highlight_rects self"
  by (simp add: display_def Let_def split: list.splits option.splits)

lemma init_no_highlights:
  "InteractiveArray a st xt yt = Inr w \<Longrightarrow> highlight_rects w = []"
  by (auto simp: InteractiveArray_def bind_result_def split: sum.splits if_splits option.splits)

text \<open>
  C7, as amended. The highlight list is empty when the wrapper is constructed, and
  \<open>display\<close> leaves it exactly as it was: re-rendering does not clear it.
  (\<open>update_stats\<close> returns no new wrapper state, and the operators and \<open>sum\<close> build
  new wrappers; of the modelled methods only \<open>onclick\<close> changes the list.)
\<close>

theorem display_keeps_highlight_rects:
  assumes "InteractiveArray a st xt yt = Inr w"
  shows "highlight_rects w = []
     \<and> highlight_rects (fst (display clear self)) = highlight_rects self"
  using assms by (simp add: init_no_highlights display_keeps_highlights)

theorem display_keeps_highlight_rects_witness:
  "highlight_rects example_vector = []
   \<and> highlight_rects (fst (display True
         (fst (onclick \<lparr>xdata = Some 0, ydata = Some 0\<rparr> example_shown))))
     = highlight_rects (fst (onclick \<lparr>xdata = Some 0, ydata = Some 0\<rparr> example_shown))"
  using display_keeps_highlight_rects [OF example_vector_wrap [unfolded wrap_def],
      of True "fst (onclick \<lparr>xdata = Some 0, ydata = Some 0\<rparr> example_shown)"]
  by simp

theorem display_does_not_clear_counterexample:
  "highlight_rects (fst (display True
       (fst (onclick \<lparr>xdata = Some 0, ydata = Some 0\<rparr> (fst (display True example_vector))))))
   = [\<lparr>xy = (- 1 / 2, - 1 / 2), attached = True\<rparr>]"
  by (simp add: display_keeps_highlights onclick_def display_def example_vector_def Let_def)

lemma display_rank1_ticks:
  assumes "wrap a = Inr w" "shape a = [n]"
  shows "\<exists>axs. ax (fst (display clear w)) = Some axs \<and> image_shape axs = (1, n)
     \<and> xtick_locs axs = np_arange n \<and> xticklabels axs = arange_labels n
     \<and> ytick_locs axs = [] \<and> yticklabels axs = []"
proof -
  from wrap_rank_pos [OF assms(2)] assms(1) have "arr w = a" "xticks w = arange_labels n"
    by auto
  then show ?thesis using assms(2) by (simp add: display_def Let_def subplots_def)
qed

lemma display_rank2_ticks:
  assumes "wrap a = Inr w" "shape a = [r, c]" "0 < r"
  shows "\<exists>axs. ax (fst (display clear w)) = Some axs \<and> image_shape axs = (r, c)
     \<and> xtick_locs axs = np_arange r \<and> xticklabels axs = arange_labels r
     \<and> ytick_locs axs = np_arange c \<and> yticklabels axs = arange_labels c"
proof -
  from wrap_rank_pos [OF assms(2)] assms(1) have "arr w = a" "xticks w = arange_labels r"
    "yticks w = Some (arange_labels c)" by auto
  then show ?thesis using assms(2,3) by (simp add: display_def Let_def subplots_def)
qed

text \<open>
  C9. The claim: for rank 2 the x tick labels go with the columns and the y tick labels
  with the rows, also for non-square arrays. The code: the default \<open>xticks\<close> are
  \<open>np.arange(shape[0])\<close> and the x ticks are put at \<open>np.arange(len(self.arr))\<close>, the
  number of rows; the y ticks at \<open>np.arange(len(self.arr[0]))\<close>, the number of columns
  (\<open>display_rank2_ticks\<close>). For the 2 by 3 array the grid has 3 columns and 2 rows,
  while the x axis gets the two ticks 0, 1 and the y axis the three ticks 0, 1, 2.
  (For rank 1, \<open>display_rank1_ticks\<close>, the x ticks are one per element.)
\<close>

theorem non_square_ticks_swapped:
  "map_option (\<lambda>a. (image_shape a, xtick_locs a, xticklabels a, ytick_locs a, yticklabels a))
     (ax (fst (display True example_2x3)))
   = Some ((2, 3), [0, 1], [IntLabel 0, IntLabel 1], [0, 1, 2],
           [IntLabel 0, IntLabel 1, IntLabel 2])"
  by (simp add: display_def example_2x3_def Let_def np_arange_small subplots_def)

section \<open>The call tree\<close>

lemma digit_char_inj: "a < 10 \<Longrightarrow> b < 10 \<Longrightarrow> digit_char a = digit_char b \<Longrightarrow> a = b"
proof -
  assume a: "a < 10" and b: "b < 10" and e: "digit_char a = digit_char b"
  have d: "distinct ''0123456789''" by simp
  have "a < length ''0123456789''" "b < length ''0123456789''" using a b by simp_all
  with d e show "a = b" unfolding digit_char_def
    by (simp only: nth_eq_iff_index_eq)
qed

lemma digit_char_mem: "d < 10 \<Longrightarrow> digit_char d \<in> set ''0123456789''"
  unfolding digit_char_def by (rule nth_mem) simp

lemma str_nat_nonempty: "str_nat n \<noteq> []"
  by (subst str_nat.simps) simp

lemma str_nat_digits: "set (str_nat n) \<subseteq> set ''0123456789''"
proof (induction n rule: str_nat.induct)
  case (1 n)
  show ?case
  proof (cases "n < 10")
    case True
    then show ?thesis using digit_char_mem [of n] by (subst str_nat.simps) simp
  next
    case False
    have "n mod 10 < 10" by simp
    then have "digit_char (n mod 10) \<in> set ''0123456789''" by (rule digit_char_mem)
    with False 1 show ?thesis by (subst str_nat.simps) simp
  qed
qed

lemma str_nat_inj: "str_nat n = str_nat m \<Longrightarrow> n = m"
proof (induction n arbitrary: m rule: str_nat.induct)
  case (1 n)
  show ?case
  proof (cases "n < 10")
    case n: True
    show ?thesis
    proof (cases "m < 10")
      case True
      with n 1(2) have "digit_char n = digit_char m"
        by (simp add: str_nat.simps [of n] str_nat.simps [of m])
      with n True show ?thesis by (intro digit_char_inj)
    next
      case False
      with n 1(2) show ?thesis
        using str_nat_nonempty [of "m div 10"]
        by (simp add: str_nat.simps [of n] str_nat.simps [of m])
    qed
  next
    case n: False
    show ?thesis
    proof (cases "m < 10")
      case True
      with n 1(2) show ?thesis
        using str_nat_nonempty [of "n div 10"]
        by (simp add: str_nat.simps [of n] str_nat.simps [of m])
    next
      case False
      with n 1(2) have e: "str_nat (n div 10) = str_nat (m div 10)"
        and d: "digit_char (n mod 10) = digit_char (m mod 10)"
        by (simp_all add: str_nat.simps [of n] str_nat.simps [of m])
      from 1(1) [OF n e] have q: "n div 10 = m div 10" .
      have r: "n mod 10 = m mod 10" using d by (intro digit_char_inj) simp_all
      have "n = n div 10 * 10 + n mod 10" by simp
      also have "\<dots> = m div 10 * 10 + m mod 10" by (simp only: q r)
      also have "\<dots> = m" by simp
      finally show ?thesis .
    qed
  qed
qed

lemma str_nat_no_paren: "CHR '')'' \<notin> set (str_nat k)"
proof -
  have "CHR '')'' \<notin> set ''0123456789''" by simp
  with str_nat_digits [of k] show ?thesis by blast
qed

lemma str_nat_no_minus: "CHR ''-'' \<notin> set (str_nat k)"
proof -
  have "CHR ''-'' \<notin> set ''0123456789''" by simp
  with str_nat_digits [of k] show ?thesis by blast
qed

lemma str_int_no_paren: "CHR '')'' \<notin> set (str_int i)"
  using str_nat_no_paren by (simp add: str_int_def)

lemma str_nat_neq_minus: "str_nat k \<noteq> CHR ''-'' # cs"
proof
  assume "str_nat k = CHR ''-'' # cs"
  then have "CHR ''-'' \<in> set (str_nat k)" by simp
  with str_nat_no_minus show False by blast
qed

lemma str_int_inj: "str_int i = str_int j \<Longrightarrow> i = j"
proof -
  assume e: "str_int i = str_int j"
  show "i = j"
  proof (cases "i < 0")
    case i: True
    show ?thesis
    proof (cases "j < 0")
      case True
      with i e have "str_nat (nat (- i)) = str_nat (nat (- j))" by (simp add: str_int_def)
      then have "nat (- i) = nat (- j)" by (rule str_nat_inj)
      with i True show ?thesis by simp
    next
      case False
      with i e have "str_nat (nat j) = CHR ''-'' # str_nat (nat (- i))" by (simp add: str_int_def)
      with str_nat_neq_minus show ?thesis by blast
    qed
  next
    case i: False
    show ?thesis
    proof (cases "j < 0")
      case True
      with i e have "str_nat (nat i) = CHR ''-'' # str_nat (nat (- j))" by (simp add: str_int_def)
      with str_nat_neq_minus show ?thesis by blast
    next
      case False
      with i e have "str_nat (nat i) = str_nat (nat j)" by (simp add: str_int_def)
      then have "nat i = nat j" by (rule str_nat_inj)
      with i False show ?thesis by simp
    qed
  qed
qed

lemma node_name_inj: "node_name n k = node_name m j \<Longrightarrow> n = m \<and> k = j"
proof -
  assume "node_name n k = node_name m j"
  then have e: "str_int n @ CHR '')'' # (CHR ''_'' # str_nat k)
              = str_int m @ CHR '')'' # (CHR ''_'' # str_nat j)"
    by (simp add: node_name_def)
  have c: "str_int n = str_int m \<and> CHR ''_'' # str_nat k = CHR ''_'' # str_nat j"
  proof -
    have "CHR '')'' \<notin> set (CHR ''_'' # str_nat k)" by (simp add: str_nat_no_paren)
    from append_Cons_eq_iff [OF str_int_no_paren this] e show ?thesis by blast
  qed
  then have a: "str_int n = str_int m" and b: "str_nat k = str_nat j" by simp_all
  from str_int_inj [OF a] str_nat_inj [OF b] show ?thesis by simp
qed

lemma node_label_inj: "node_label n = node_label m \<Longrightarrow> n = m"
  by (simp add: node_label_def str_int_inj)

lemma names_add_node [simp]: "names (add_node x l g) = names g @ [x]"
  by (simp add: names_def add_node_def)

lemma names_add_edge [simp]: "names (add_edge p h g) = names g"
  by (simp add: names_def add_edge_def)

lemma nodes_add_edge [simp]: "nodes (add_edge p h g) = nodes g"
  by (simp add: add_edge_def)

lemma nodes_add_node [simp]: "nodes (add_node x l g) = nodes g @ [(x, l)]"
  by (simp add: add_node_def)

lemma edges_add_node [simp]: "edges (add_node x l g) = edges g"
  by (simp add: add_node_def)

lemma edges_add_edge [simp]: "edges (add_edge p h g) = edges g @ [(p, h)]"
  by (simp add: add_edge_def)

lemma out_degree_add_node [simp]: "out_degree (add_node x l g) y = out_degree g y"
  by (simp add: out_degree_def)

lemma out_degree_add_edge [simp]:
  "out_degree (add_edge p h g) y = out_degree g y + (if p = y then 1 else 0)"
  by (simp add: out_degree_def)

lemma out_degree_fresh:
  "graph_inv g c \<Longrightarrow> x \<notin> set (names g) \<Longrightarrow> out_degree g x = 0"
  by (auto simp: graph_inv_def out_degree_def filter_empty_conv)

lemma fresh_name: "graph_inv g c \<Longrightarrow> node_name n (cnt c n) \<notin> set (names g)"
proof
  assume inv: "graph_inv g c" and "node_name n (cnt c n) \<in> set (names g)"
  then obtain m k where e: "node_name n (cnt c n) = node_name m k" and lt: "k < cnt c m"
    unfolding graph_inv_def by blast
  from node_name_inj [OF e] have "n = m" and "cnt c n = k" by blast+
  with lt show False by simp
qed

lemma cnt_upd: "cnt (c(n \<mapsto> v)) m = (if m = n then v else cnt c m)"
  by (simp add: cnt_def)

lemma draw_unfold:
  "draw_fib_tree_internal n parent (Some g) (Some c) =
     (let nd = node_name n (cnt c n);
          g1 = (case parent of None \<Rightarrow> add_node nd (node_label n) g
                | Some p \<Rightarrow> add_edge p nd (add_node nd (node_label n) g));
          c1 = c(n \<mapsto> cnt c n + 1)
      in if n \<le> 1 then Some (g1, c1)
         else Option.bind (draw_fib_tree_internal (n - 1) (Some nd) (Some g1) (Some c1))
                (\<lambda>(g2, c2). draw_fib_tree_internal (n - 2) (Some nd) (Some g2) (Some c2)))"
  by (subst draw_fib_tree_internal.simps) (simp add: Let_def cnt_def split: option.split)

lemma draw_top:
  "draw_fib_tree_internal n None None None = draw_fib_tree_internal n None (Some Digraph) (Some Map.empty)"
  by (subst draw_fib_tree_internal.simps, subst (2) draw_fib_tree_internal.simps) simp

lemma fib_pos: "0 < fib (Suc k)"
  by (induction k rule: fib.induct) simp_all

lemma calls_rec:
  assumes "2 \<le> n"
  shows "2 * fib (nat n + 1) - 1 = Suc ((2 * fib (nat (n - 1) + 1) - 1) + (2 * fib (nat (n - 2) + 1) - 1))"
proof -
  define k where "k = nat n - 2"
  have k: "nat n = Suc (Suc k)" using assms unfolding k_def by linarith
  have a: "nat (n - 1) = Suc k" and b: "nat (n - 2) = k" using k by linarith+
  have "0 < fib (Suc k)" "0 < fib (Suc (Suc k))" by (rule fib_pos)+
  then show ?thesis by (simp add: k a b)
qed

lemma draw_internal_spec:
  assumes "graph_inv g c" and "\<forall>p. parent = Some p \<longrightarrow> p \<in> set (names g)" and "0 \<le> n"
  shows "\<exists>g' c' new.
      draw_fib_tree_internal n parent (Some g) (Some c) = Some (g', c')
      \<and> graph_inv g' c' \<and> (\<forall>m. cnt c m \<le> cnt c' m)
      \<and> nodes g' = nodes g @ new \<and> length new = 2 * fib (nat n + 1) - 1
      \<and> (\<forall>e \<in> set new. out_degree g' (fst e) = 2
            \<or> (out_degree g' (fst e) = 0 \<and> (snd e = node_label 0 \<or> snd e = node_label 1)))
      \<and> (\<forall>x \<in> set (names g).
            out_degree g' x = out_degree g x + (if parent = Some x then 1 else 0))"
  using assms
proof (induction "nat n" arbitrary: n parent g c rule: less_induct)
  case less
  note inv = less.prems(1) and par = less.prems(2) and n0 = less.prems(3)
  define nd where "nd = node_name n (cnt c n)"
  define g0 where "g0 = add_node nd (node_label n) g"
  define g1 where "g1 = (case parent of None \<Rightarrow> g0 | Some p \<Rightarrow> add_edge p nd g0)"
  define c1 where "c1 = c(n \<mapsto> cnt c n + 1)"
  have fresh: "nd \<notin> set (names g)"
    unfolding nd_def using inv by (rule fresh_name)
  have names1: "names g1 = names g @ [nd]"
    by (simp add: g1_def g0_def split: option.split)
  have nodes1: "nodes g1 = nodes g @ [(nd, node_label n)]"
    by (simp add: g1_def g0_def split: option.split)
  have edges1: "e \<in> set (edges g1) \<Longrightarrow> e \<in> set (edges g) \<or> (parent = Some (fst e))" for e
    by (auto simp: g1_def g0_def split: option.splits)
  have out1: "out_degree g1 x = out_degree g x + (if parent = Some x then 1 else 0)" for x
    by (simp add: g1_def g0_def split: option.split)
  have mono1: "cnt c m \<le> cnt c1 m" for m
    by (simp add: c1_def cnt_upd)
  have inv1: "graph_inv g1 c1"
    unfolding graph_inv_def
  proof (intro conjI ballI)
    show "distinct (names g1)"
      using inv fresh by (simp add: names1 graph_inv_def)
  next
    fix x assume "x \<in> set (names g1)"
    then consider "x = nd" | "x \<in> set (names g)" by (auto simp: names1)
    then show "\<exists>m k. x = node_name m k \<and> k < cnt c1 m"
    proof cases
      case 1
      then show ?thesis unfolding nd_def c1_def
        by (intro exI [of _ n] exI [of _ "cnt c n"]) (simp add: cnt_upd)
    next
      case 2
      with inv obtain m k where "x = node_name m k" "k < cnt c m"
        unfolding graph_inv_def by blast
      with mono1 [of m] show ?thesis
        by (intro exI [of _ m] exI [of _ k]) simp
    qed
  next
    fix e assume "e \<in> set (edges g1)"
    then consider "e \<in> set (edges g)" | "parent = Some (fst e)" using edges1 by blast
    then show "fst e \<in> set (names g1)"
    proof cases
      case 1
      with inv show ?thesis by (simp add: names1 graph_inv_def)
    next
      case 2
      with par show ?thesis by (simp add: names1)
    qed
  qed
  have out1_nd: "out_degree g1 nd = 0"
  proof -
    have "out_degree g nd = 0" using inv fresh by (rule out_degree_fresh)
    moreover have "parent \<noteq> Some nd" using par fresh by auto
    ultimately show ?thesis by (simp add: out1)
  qed
  have unfold: "draw_fib_tree_internal n parent (Some g) (Some c) =
      (if n \<le> 1 then Some (g1, c1)
       else Option.bind (draw_fib_tree_internal (n - 1) (Some nd) (Some g1) (Some c1))
              (\<lambda>(g2, c2). draw_fib_tree_internal (n - 2) (Some nd) (Some g2) (Some c2)))"
    by (subst draw_unfold) (simp add: Let_def nd_def g1_def g0_def c1_def split: option.split)
  show ?case
  proof (cases "n \<le> 1")
    case True
    with n0 have n01: "n = 0 \<or> n = 1" by auto
    then have len: "2 * fib (nat n + 1) - 1 = 1" by (auto simp: numeral_2_eq_2)
    show ?thesis
    proof (intro exI [of _ g1] exI [of _ c1] exI [of _ "[(nd, node_label n)]"] conjI)
      show "draw_fib_tree_internal n parent (Some g) (Some c) = Some (g1, c1)"
        using True by (simp add: unfold)
      show "graph_inv g1 c1" by fact
      show "\<forall>m. cnt c m \<le> cnt c1 m" using mono1 by simp
      show "nodes g1 = nodes g @ [(nd, node_label n)]" by fact
      show "length [(nd, node_label n)] = 2 * fib (nat n + 1) - 1" using len by simp
      show "\<forall>e \<in> set [(nd, node_label n)]. out_degree g1 (fst e) = 2
            \<or> (out_degree g1 (fst e) = 0 \<and> (snd e = node_label 0 \<or> snd e = node_label 1))"
        using out1_nd n01 by auto
      show "\<forall>x \<in> set (names g).
            out_degree g1 x = out_degree g x + (if parent = Some x then 1 else 0)"
        using out1 by simp
    qed
  next
    case False
    have lt1: "nat (n - 1) < nat n" and lt2: "nat (n - 2) < nat n" using False by auto
    have pos1: "0 \<le> n - 1" and pos2: "0 \<le> n - 2" using False by auto
    have par1: "\<forall>p. Some nd = Some p \<longrightarrow> p \<in> set (names g1)" by (simp add: names1)
    from less.hyps [OF lt1 inv1 par1 pos1] obtain g2 c2 new1 where
      r1: "draw_fib_tree_internal (n - 1) (Some nd) (Some g1) (Some c1) = Some (g2, c2)"
      and inv2: "graph_inv g2 c2"
      and mono2: "\<forall>m. cnt c1 m \<le> cnt c2 m"
      and nodes2: "nodes g2 = nodes g1 @ new1"
      and len1: "length new1 = 2 * fib (nat (n - 1) + 1) - 1"
      and new1: "\<forall>e \<in> set new1. out_degree g2 (fst e) = 2
            \<or> (out_degree g2 (fst e) = 0 \<and> (snd e = node_label 0 \<or> snd e = node_label 1))"
      and out2: "\<forall>x \<in> set (names g1).
            out_degree g2 x = out_degree g1 x + (if Some nd = Some x then 1 else 0)"
      by blast
    have names2: "names g2 = names g1 @ map fst new1" by (simp add: names_def nodes2)
    have par2: "\<forall>p. Some nd = Some p \<longrightarrow> p \<in> set (names g2)" by (simp add: names2 names1)
    from less.hyps [OF lt2 inv2 par2 pos2] obtain g3 c3 new2 where
      r2: "draw_fib_tree_internal (n - 2) (Some nd) (Some g2) (Some c2) = Some (g3, c3)"
      and inv3: "graph_inv g3 c3"
      and mono3: "\<forall>m. cnt c2 m \<le> cnt c3 m"
      and nodes3: "nodes g3 = nodes g2 @ new2"
      and len2: "length new2 = 2 * fib (nat (n - 2) + 1) - 1"
      and new2: "\<forall>e \<in> set new2. out_degree g3 (fst e) = 2
            \<or> (out_degree g3 (fst e) = 0 \<and> (snd e = node_label 0 \<or> snd e = node_label 1))"
      and out3: "\<forall>x \<in> set (names g2).
            out_degree g3 x = out_degree g2 x + (if Some nd = Some x then 1 else 0)"
      by blast
    show ?thesis
    proof (intro exI [of _ g3] exI [of _ c3] exI [of _ "(nd, node_label n) # new1 @ new2"] conjI)
      show "draw_fib_tree_internal n parent (Some g) (Some c) = Some (g3, c3)"
        using False r1 r2 by (simp add: unfold)
      show "graph_inv g3 c3" by fact
      show "\<forall>m. cnt c m \<le> cnt c3 m"
      proof
        fix m
        have "cnt c m \<le> cnt c1 m" by (rule mono1)
        also have "\<dots> \<le> cnt c2 m" using mono2 by simp
        also have "\<dots> \<le> cnt c3 m" using mono3 by simp
        finally show "cnt c m \<le> cnt c3 m" .
      qed
      show "nodes g3 = nodes g @ (nd, node_label n) # new1 @ new2"
        by (simp add: nodes3 nodes2 nodes1)
      show "length ((nd, node_label n) # new1 @ new2) = 2 * fib (nat n + 1) - 1"
        using calls_rec [of n] False len1 len2 by simp
      show "\<forall>e \<in> set ((nd, node_label n) # new1 @ new2). out_degree g3 (fst e) = 2
            \<or> (out_degree g3 (fst e) = 0 \<and> (snd e = node_label 0 \<or> snd e = node_label 1))"
      proof
        fix e assume "e \<in> set ((nd, node_label n) # new1 @ new2)"
        then consider "e = (nd, node_label n)" | "e \<in> set new1" | "e \<in> set new2" by auto
        then show "out_degree g3 (fst e) = 2
            \<or> (out_degree g3 (fst e) = 0 \<and> (snd e = node_label 0 \<or> snd e = node_label 1))"
        proof cases
          case 1
          have "out_degree g2 nd = 1" using out2 out1_nd by (simp add: names1)
          moreover have "nd \<in> set (names g2)" by (simp add: names2 names1)
          ultimately have "out_degree g3 nd = 2" using out3 by simp
          with 1 show ?thesis by simp
        next
          case 2
          then have mem: "fst e \<in> set (names g2)" by (simp add: names2)
          have "distinct (names g2)" using inv2 by (simp add: graph_inv_def)
          with 2 have "fst e \<noteq> nd" by (auto simp: names2 names1)
          with out3 mem have "out_degree g3 (fst e) = out_degree g2 (fst e)" by simp
          with new1 2 show ?thesis by simp
        next
          case 3
          with new2 show ?thesis by blast
        qed
      qed
      show "\<forall>x \<in> set (names g).
            out_degree g3 x = out_degree g x + (if parent = Some x then 1 else 0)"
      proof
        fix x assume x: "x \<in> set (names g)"
        then have ne: "x \<noteq> nd" using fresh by auto
        have "x \<in> set (names g1)" "x \<in> set (names g2)" using x by (simp_all add: names1 names2)
        with out2 out3 ne have "out_degree g3 x = out_degree g1 x" by simp
        then show "out_degree g3 x = out_degree g x + (if parent = Some x then 1 else 0)"
          by (simp add: out1)
      qed
    qed
  qed
qed

lemma graph_inv_empty: "graph_inv Digraph Map.empty"
  by (simp add: graph_inv_def Digraph_def names_def)

lemma node_label_0: "node_label 0 = ''fib(0)''"
  by (simp add: node_label_def str_int_def str_nat.simps digit_char_def)

lemma node_label_1: "node_label 1 = ''fib(1)''"
  by (simp add: node_label_def str_int_def str_nat.simps digit_char_def)

lemma draw_fib_tree_3:
  "draw_fib_tree 3 = Some \<lparr>nodes = [(''fib(3)_0'', ''fib(3)''), (''fib(2)_0'', ''fib(2)''),
       (''fib(1)_0'', ''fib(1)''), (''fib(0)_0'', ''fib(0)''), (''fib(1)_1'', ''fib(1)'')],
     edges = [(''fib(3)_0'', ''fib(2)_0''), (''fib(2)_0'', ''fib(1)_0''),
       (''fib(2)_0'', ''fib(0)_0''), (''fib(3)_0'', ''fib(1)_1'')]\<rparr>"
  by (simp add: draw_fib_tree_def draw_top draw_unfold cnt_def Let_def Digraph_def add_node_def
      add_edge_def node_name_def node_label_def str_int_def str_nat.simps digit_char_def)

text \<open>
  C1. For every \<open>n \<ge> 0\<close>, \<open>draw_fib_tree n\<close> returns a graph with exactly
  \<open>2 * fib (n + 1) - 1\<close> nodes, all with different names (one node per call of the
  naive recursion); every node has either two outgoing edges or none, and a node with
  none is labelled \<open>fib(0)\<close> or \<open>fib(1)\<close>.
\<close>

theorem fib_tree_node_count:
  assumes "0 \<le> n"
  shows "\<exists>g. draw_fib_tree n = Some g
     \<and> length (nodes g) = 2 * fib (nat n + 1) - 1
     \<and> distinct (map fst (nodes g))
     \<and> (\<forall>e \<in> set (nodes g). out_degree g (fst e) = 2
          \<or> (out_degree g (fst e) = 0 \<and> (snd e = ''fib(0)'' \<or> snd e = ''fib(1)'')))"
proof -
  have "\<forall>p. None = Some p \<longrightarrow> p \<in> set (names Digraph)" by simp
  from draw_internal_spec [OF graph_inv_empty this assms] obtain g c new where
    r: "draw_fib_tree_internal n None (Some Digraph) (Some Map.empty) = Some (g, c)"
    and inv: "graph_inv g c"
    and nodes: "nodes g = nodes Digraph @ new"
    and len: "length new = 2 * fib (nat n + 1) - 1"
    and new: "\<forall>e \<in> set new. out_degree g (fst e) = 2
          \<or> (out_degree g (fst e) = 0 \<and> (snd e = node_label 0 \<or> snd e = node_label 1))"
    by blast
  have eq: "nodes g = new" using nodes by (simp add: Digraph_def)
  show ?thesis
  proof (intro exI [of _ g] conjI)
    show "draw_fib_tree n = Some g" by (simp add: draw_fib_tree_def draw_top r)
    show "length (nodes g) = 2 * fib (nat n + 1) - 1" using len eq by simp
    show "distinct (map fst (nodes g))" using inv by (simp add: graph_inv_def names_def)
    show "\<forall>e \<in> set (nodes g). out_degree g (fst e) = 2
          \<or> (out_degree g (fst e) = 0 \<and> (snd e = ''fib(0)'' \<or> snd e = ''fib(1)''))"
      using new by (simp add: eq node_label_0 node_label_1)
  qed
qed

theorem fib_tree_node_count_witness:
  "\<exists>g. draw_fib_tree 3 = Some g \<and> length (nodes g) = 5 \<and> distinct (map fst (nodes g))"
proof -
  have "(0::int) \<le> 3" by simp
  from fib_tree_node_count [OF this] show ?thesis by (auto simp: numeral_eq_Suc)
qed

text \<open>
  C5, as amended. For every negative \<open>n\<close> the test \<open>n <= 1\<close> holds at the first call,
  so the builder returns at once: \<open>draw_fib_tree n\<close> is the graph with the single
  node \<open>fib(n)_0\<close>, labelled \<open>fib(n)\<close>, and no edge. A negative argument is handled
  silently; it is not a case in which the recursion fails to terminate.
\<close>

theorem negative_n_returns_at_base_case:
  assumes "n < 0"
  shows "draw_fib_tree n = Some \<lparr>nodes = [(node_name n 0, node_label n)], edges = []\<rparr>"
  using assms
  by (simp add: draw_fib_tree_def draw_top draw_unfold cnt_def Let_def Digraph_def add_node_def)

theorem negative_n_returns_witness:
  "draw_fib_tree (- 4) = Some \<lparr>nodes = [(''fib(-4)_0'', ''fib(-4)'')], edges = []\<rparr>"
proof -
  have "(- 4 :: int) < 0" by simp
  from negative_n_returns_at_base_case [OF this] show ?thesis
    by (simp add: node_name_def node_label_def str_int_def str_nat.simps digit_char_def)
qed

theorem negative_n_counterexample:
  "draw_fib_tree (- 1) = Some \<lparr>nodes = [(''fib(-1)_0'', ''fib(-1)'')], edges = []\<rparr>"
  by (simp add: draw_fib_tree_def draw_top draw_unfold cnt_def Let_def Digraph_def add_node_def
      node_name_def node_label_def str_int_def str_nat.simps digit_char_def)

end
